theory Spec2Isabelle
  imports Complex_Main "HOL-Library.AList"
begin

section \<open>Python strings\<close>

text \<open>
  A Python \<open>str\<close> is a sequence of Unicode code points, so \<open>len\<close> is \<open>length\<close>.  The
  character classes of the \<open>re\<close> module (\<open>\d\<close>, \<open>\s\<close>, \<open>\w\<close>) and \<open>str.lower\<close> are written out
  for the two scripts the checker's own tables use: ASCII and the Devanagari block
  (U+0900 to U+097F).  White space is the full Unicode list of \<open>str.isspace\<close>.  Every other
  code point is taken to be a caseless symbol that is neither digit nor word character.
\<close>

type_synonym str = "nat list"

definition asc :: "string \<Rightarrow> str" where
  "asc s = map of_char s"

definition is_space :: "nat \<Rightarrow> bool" where
  "is_space c \<longleftrightarrow> (9 \<le> c \<and> c \<le> 13) \<or> (28 \<le> c \<and> c \<le> 32) \<or> c = 0x85 \<or> c = 0xA0
     \<or> c = 0x1680 \<or> (0x2000 \<le> c \<and> c \<le> 0x200A) \<or> c = 0x2028 \<or> c = 0x2029
     \<or> c = 0x202F \<or> c = 0x205F \<or> c = 0x3000"

definition is_digit :: "nat \<Rightarrow> bool" where
  "is_digit c \<longleftrightarrow> (48 \<le> c \<and> c \<le> 57) \<or> (0x966 \<le> c \<and> c \<le> 0x96F)"

definition is_word :: "nat \<Rightarrow> bool" where
  "is_word c \<longleftrightarrow> (48 \<le> c \<and> c \<le> 57) \<or> (65 \<le> c \<and> c \<le> 90) \<or> c = 95 \<or> (97 \<le> c \<and> c \<le> 122)
     \<or> (0x904 \<le> c \<and> c \<le> 0x939) \<or> c = 0x93D \<or> c = 0x950 \<or> (0x958 \<le> c \<and> c \<le> 0x961)
     \<or> (0x966 \<le> c \<and> c \<le> 0x96F) \<or> (0x971 \<le> c \<and> c \<le> 0x97F)"

definition lower_c :: "nat \<Rightarrow> nat" where
  "lower_c c = (if 65 \<le> c \<and> c \<le> 90 then c + 32 else c)"

definition upper_c :: "nat \<Rightarrow> nat" where
  "upper_c c = (if 97 \<le> c \<and> c \<le> 122 then c - 32 else c)"

text \<open>\<open>s.lower()\<close>\<close>

definition py_lower :: "str \<Rightarrow> str" where
  "py_lower s = map lower_c s"

text \<open>\<open>s.startswith(p)\<close>\<close>

fun py_startswith :: "str \<Rightarrow> str \<Rightarrow> bool" where
  "py_startswith s [] = True"
| "py_startswith [] (c # p) = False"
| "py_startswith (x # s) (c # p) = (if x = c then py_startswith s p else False)"

text \<open>\<open>x in s\<close>, the substring test\<close>

primrec py_in :: "str \<Rightarrow> str \<Rightarrow> bool" where
  "py_in x [] = (x = [])"
| "py_in x (c # s) = (if py_startswith (c # s) x then True else py_in x s)"

text \<open>\<open>s.strip()\<close>\<close>

definition py_strip :: "str \<Rightarrow> str" where
  "py_strip s = rev (dropWhile is_space (rev (dropWhile is_space s)))"







section \<open>Regular expressions\<close>

text \<open>
  The patterns of the checker are values of \<open>re\<close>; \<open>m\<close> is a backtracking matcher with the
  priorities of Python's \<open>re\<close> module: alternatives left to right, a greedy repetition tries
  one more round before stopping, a lazy one stops before trying one more round.  The
  continuation \<open>k\<close> is the rest of the pattern; the first alternative on which it succeeds
  is the match.  A state holds the character before the current position (for \<open>\b\<close>), the
  text still to be read and the groups captured so far, the latest first.
\<close>

datatype cset = Chr nat | Rng nat nat | Digits | Spaces | Words

fun in_cset :: "cset \<Rightarrow> nat \<Rightarrow> bool" where
  "in_cset (Chr a) c = (c = a)"
| "in_cset (Rng a b) c = (a \<le> c \<and> c \<le> b)"
| "in_cset Digits c = is_digit c"
| "in_cset Spaces c = is_space c"
| "in_cset Words c = is_word c"

text \<open>Membership in a bracket expression; under \<open>re.IGNORECASE\<close> either case may belong.\<close>

definition in_class :: "bool \<Rightarrow> cset list \<Rightarrow> nat \<Rightarrow> bool" where
  "in_class ic items c =
     (list_ex (\<lambda>i. in_cset i c) items \<or>
      (ic \<and> list_ex (\<lambda>i. in_cset i (lower_c c) \<or> in_cset i (upper_c c)) items))"

datatype re =
    Eps
  | Lit nat
  | Cls "cset list"
  | NCls "cset list"
  | Dot
  | WordB
  | Seq re re
  | Alt re re
  | Rep nat "nat option" bool re
  | Grp nat re

record mstate =
  prev :: "nat option"
  rest :: str
  caps :: "(nat \<times> str) list"

type_synonym cont = "mstate \<Rightarrow> mstate option"

definition step :: "(nat \<Rightarrow> bool) \<Rightarrow> cont \<Rightarrow> cont" where
  "step ok k st =
     (case rest st of [] \<Rightarrow> None
      | c # cs \<Rightarrow> if ok c then k (st\<lparr>prev := Some c, rest := cs\<rparr>) else None)"

text \<open>
  \<open>rep n f lo g k\<close>: at most \<open>n\<close> further rounds of \<open>f\<close>, of which \<open>lo\<close> are still required;
  \<open>g\<close> is greediness.
\<close>

primrec rep :: "nat \<Rightarrow> (cont \<Rightarrow> cont) \<Rightarrow> nat \<Rightarrow> bool \<Rightarrow> cont \<Rightarrow> cont" where
  "rep 0 f lo g k st = (if lo = 0 then k st else None)"
| "rep (Suc n) f lo g k st =
     (if 0 < lo then f (rep n f (lo - 1) g k) st
      else if g then (case f (rep n f 0 g k) st of Some x \<Rightarrow> Some x | None \<Rightarrow> k st)
      else (case k st of Some x \<Rightarrow> Some x | None \<Rightarrow> f (rep n f 0 g k) st))"

definition at_boundary :: "mstate \<Rightarrow> bool" where
  "at_boundary st \<longleftrightarrow>
     (case prev st of None \<Rightarrow> False | Some c \<Rightarrow> is_word c) \<noteq>
     (case rest st of [] \<Rightarrow> False | c # cs \<Rightarrow> is_word c)"

definition capture :: "nat \<Rightarrow> mstate \<Rightarrow> mstate \<Rightarrow> mstate" where
  "capture n st st' =
     st'\<lparr>caps := (n, take (length (rest st) - length (rest st')) (rest st)) # caps st'\<rparr>"

text \<open>
  An unbounded repetition gets as many rounds as there are characters left (beyond the
  required ones): every repeated sub-pattern of the checker consumes a character per round.
\<close>

primrec m :: "bool \<Rightarrow> re \<Rightarrow> cont \<Rightarrow> cont" where
  "m ic Eps k st = k st"
| "m ic (Lit a) k st = step (\<lambda>c. if ic then lower_c c = lower_c a else c = a) k st"
| "m ic (Cls items) k st = step (in_class ic items) k st"
| "m ic (NCls items) k st = step (\<lambda>c. \<not> in_class ic items c) k st"
| "m ic Dot k st = step (\<lambda>c. c \<noteq> 10) k st"
| "m ic WordB k st = (if at_boundary st then k st else None)"
| "m ic (Seq a b) k st = m ic a (m ic b k) st"
| "m ic (Alt a b) k st = (case m ic a k st of Some x \<Rightarrow> Some x | None \<Rightarrow> m ic b k st)"
| "m ic (Rep lo hi g r) k st =
     rep (case hi of None \<Rightarrow> lo + length (rest st) | Some h \<Rightarrow> h) (m ic r) lo g k st"
| "m ic (Grp n r) k st = m ic r (\<lambda>st'. k (capture n st st')) st"

text \<open>\<open>re.search\<close> from a position: the leftmost start at which the pattern matches.\<close>

primrec search_from :: "bool \<Rightarrow> re \<Rightarrow> nat option \<Rightarrow> str \<Rightarrow> mstate option" where
  "search_from ic r p [] = m ic r Some \<lparr>prev = p, rest = [], caps = []\<rparr>"
| "search_from ic r p (c # cs) =
     (case m ic r Some \<lparr>prev = p, rest = c # cs, caps = []\<rparr> of Some x \<Rightarrow> Some x
      | None \<Rightarrow> search_from ic r (Some c) cs)"

text \<open>\<open>re.search(r, s, flags)\<close>; the flag is \<open>re.IGNORECASE\<close>. The result is the match object.\<close>

definition re_search :: "bool \<Rightarrow> re \<Rightarrow> str \<Rightarrow> mstate option" where
  "re_search ic r s = search_from ic r None s"

text \<open>\<open>bool(re.search(r, s, flags))\<close>\<close>

definition re_found :: "bool \<Rightarrow> re \<Rightarrow> str \<Rightarrow> bool" where
  "re_found ic r s \<longleftrightarrow> re_search ic r s \<noteq> None"

text \<open>\<open>match.group(n)\<close> for a group number \<open>n > 0\<close>; \<open>None\<close> when the group took no part.\<close>

definition group :: "mstate \<Rightarrow> nat \<Rightarrow> str option" where
  "group mt n = map_of (caps mt) n"

text \<open>
  \<open>re.finditer\<close>: the non-overlapping matches from left to right, each search starting
  where the previous match ended.  After an empty match the scan moves on by one character
  (no pattern of the checker has an empty match).
\<close>

function finditer_from :: "bool \<Rightarrow> re \<Rightarrow> nat option \<Rightarrow> str \<Rightarrow> mstate list" where
  "finditer_from ic r p s =
     (case m ic r Some \<lparr>prev = p, rest = s, caps = []\<rparr> of
        Some st \<Rightarrow>
          if length (rest st) < length s then st # finditer_from ic r (prev st) (rest st)
          else st # (case s of [] \<Rightarrow> [] | c # cs \<Rightarrow> finditer_from ic r (Some c) cs)
      | None \<Rightarrow> (case s of [] \<Rightarrow> [] | c # cs \<Rightarrow> finditer_from ic r (Some c) cs))"
  by pat_completeness auto
termination
  by (relation "measure (\<lambda>(ic, r, p, s). length s)") auto

declare finditer_from.simps [simp del]

definition finditer :: "bool \<Rightarrow> re \<Rightarrow> str \<Rightarrow> mstate list" where
  "finditer ic r s = finditer_from ic r None s"

subsection \<open>Pattern notation\<close>

definition cat :: "re list \<Rightarrow> re" where
  "cat rs = foldr Seq rs Eps"

definition lits :: "str \<Rightarrow> re" where
  "lits s = cat (map Lit s)"

fun alts :: "re list \<Rightarrow> re" where
  "alts [] = Eps"
| "alts [r] = r"
| "alts (r # q # rs) = Alt r (alts (q # rs))"

definition times :: "nat \<Rightarrow> re \<Rightarrow> re" where
  "times n r = Rep n (Some n) True r"

definition between :: "nat \<Rightarrow> nat \<Rightarrow> re \<Rightarrow> re" where
  "between lo hi r = Rep lo (Some hi) True r"

definition at_least :: "nat \<Rightarrow> re \<Rightarrow> re" where
  "at_least lo r = Rep lo None True r"

definition star :: "re \<Rightarrow> re" where
  "star r = Rep 0 None True r"

definition plus :: "re \<Rightarrow> re" where
  "plus r = Rep 1 None True r"

definition opt :: "re \<Rightarrow> re" where
  "opt r = Rep 0 (Some 1) True r"

definition lazy_star :: "re \<Rightarrow> re" where
  "lazy_star r = Rep 0 None False r"

text \<open>\<open>\d\<close>, \<open>\s\<close>, \<open>[/-]\<close>, \<open>[\s\-]\<close>\<close>

definition dig :: re where
  "dig = Cls [Digits]"

definition wsp :: re where
  "wsp = Cls [Spaces]"

definition sep :: re where
  "sep = Cls [Chr 47, Chr 45]"

definition ws_dash :: re where
  "ws_dash = Cls [Spaces, Chr 45]"

section \<open>The pattern registry\<close>

text \<open>
  \<open>self.document_patterns\<close>: a dictionary in insertion order, here an association list.  Each
  regular expression of the source is given next to its translation.  Strings outside ASCII
  are written as code points.
\<close>

record doc_config =
  doc_keywords :: "str list"
  required_fields :: "string list"
  patterns :: "(string \<times> re) list"
  security_features :: "str list"

text \<open>\<^verbatim>\<open>(\d{2}[/-]\d{2}[/-]\d{4})\<close>\<close>

definition date_token :: re where
  "date_token = Grp 1 (cat [times 2 dig, sep, times 2 dig, sep, times 4 dig])"

text \<open>\<^verbatim>\<open>\b\d{4}[\s\-]*\d{4}[\s\-]*\d{4}\b\<close>\<close>

definition re_12_digit_number :: re where
  "re_12_digit_number =
     cat [WordB, times 4 dig, star ws_dash, times 4 dig, star ws_dash, times 4 dig, WordB]"

text \<open>\<^verbatim>\<open>[A-Za-z\s]{2,50}\<close> and \<^verbatim>\<open>[A-Za-z\s]{3,50}\<close>\<close>

definition re_name :: "nat \<Rightarrow> re" where
  "re_name lo = between lo 50 (Cls [Rng 65 90, Rng 97 122, Spaces])"

text \<open>\<^verbatim>\<open>(\d{1,2}[/-]\d{1,2}[/-]\d{4}|\d{4}[/-]\d{1,2}[/-]\d{1,2})\<close>\<close>

definition re_dob_aadhaar :: re where
  "re_dob_aadhaar =
     Grp 1 (Alt (cat [between 1 2 dig, sep, between 1 2 dig, sep, times 4 dig])
                (cat [times 4 dig, sep, between 1 2 dig, sep, between 1 2 dig]))"

text \<open>\<^verbatim>\<open>(address|\u092a\u0924\u093e|s/o|d/o|w/o)\<close>\<close>

definition re_address_aadhaar :: re where
  "re_address_aadhaar =
     Grp 1 (alts [lits (asc ''address''),
                  lits ([0x92A, 0x924, 0x93E]),
                  lits (asc ''s/o''),
                  lits (asc ''d/o''),
                  lits (asc ''w/o'')])"

text \<open>\<^verbatim>\<open>(SC|ST|OBC|VJNT|SBC|scheduled caste|scheduled tribe|other backward class)\<close>\<close>

definition re_caste :: re where
  "re_caste =
     Grp 1 (alts [lits (asc ''SC''),
                  lits (asc ''ST''),
                  lits (asc ''OBC''),
                  lits (asc ''VJNT''),
                  lits (asc ''SBC''),
                  lits (asc ''scheduled caste''),
                  lits (asc ''scheduled tribe''),
                  lits (asc ''other backward class'')])"

text \<open>\<^verbatim>\<open>(mumbai|pune|nagpur|nashik|aurangabad|kolhapur|satara|sangli|solapur|ahmednagar)\<close>\<close>

definition re_district :: re where
  "re_district =
     Grp 1 (alts [lits (asc ''mumbai''),
                  lits (asc ''pune''),
                  lits (asc ''nagpur''),
                  lits (asc ''nashik''),
                  lits (asc ''aurangabad''),
                  lits (asc ''kolhapur''),
                  lits (asc ''satara''),
                  lits (asc ''sangli''),
                  lits (asc ''solapur''),
                  lits (asc ''ahmednagar'')])"

text \<open>The tail \<^verbatim>\<open>.*?no\.?\s*:?\s*([A-Z0-9/-]+)\<close> of the two number patterns\<close>

definition number_tail :: "re list" where
  "number_tail =
     [lazy_star Dot, lits (asc ''no''), opt (Lit 46), star wsp, opt (Lit 58), star wsp,
      Grp 2 (plus (Cls [Rng 65 90, Rng 48 57, Chr 47, Chr 45]))]"

text \<open>\<^verbatim>\<open>(cert|certificate|\u092a\u094d\u0930\u092e\u093e\u0923\u092a\u0924\u094d\u0930).*?no\.?\s*:?\s*([A-Z0-9/-]+)\<close>\<close>

definition re_certificate_number :: re where
  "re_certificate_number =
     cat (Grp 1 (alts [lits (asc ''cert''),
                       lits (asc ''certificate''),
                       lits ([0x92A, 0x94D, 0x930, 0x92E, 0x93E, 0x923, 0x92A, 0x924, 0x94D, 0x930])]) # number_tail)"

text \<open>\<^verbatim>\<open>(?:rs\.?|\u20b9|rupees)\s*(\d{1,3}(?:,\d{3})*)\<close>\<close>

definition re_annual_income :: re where
  "re_annual_income =
     cat [alts [cat [lits (asc ''rs''), opt (Lit 46)], Lit 0x20B9, lits (asc ''rupees'')],
          star wsp,
          Grp 1 (cat [between 1 3 dig, star (cat [Lit 44, times 3 dig])])]"

text \<open>\<^verbatim>\<open>valid.*?(\d{2}[/-]\d{2}[/-]\d{4})\<close>\<close>

definition re_validity_date :: re where
  "re_validity_date = cat [lits (asc ''valid''), lazy_star Dot, date_token]"

text \<open>\<^verbatim>\<open>(address|\u092a\u0924\u093e|\u0928\u093f\u0935\u093e\u0938)\<close>\<close>

definition re_address_domicile :: re where
  "re_address_domicile =
     Grp 1 (alts [lits (asc ''address''),
                  lits ([0x92A, 0x924, 0x93E]),
                  lits ([0x928, 0x93F, 0x935, 0x93E, 0x938])])"

text \<open>\<^verbatim>\<open>\d{2}[/-]\d{2}[/-]\d{4}\<close>\<close>

definition re_dob_birth :: re where
  "re_dob_birth = cat [times 2 dig, sep, times 2 dig, sep, times 4 dig]"

text \<open>\<^verbatim>\<open>(born at|birth place|\u091c\u0928\u094d\u092e \u0938\u094d\u0925\u093e\u0928)\<close>\<close>

definition re_place_of_birth :: re where
  "re_place_of_birth =
     Grp 1 (alts [lits (asc ''born at''),
                  lits (asc ''birth place''),
                  lits ([0x91C, 0x928, 0x94D, 0x92E, 0x20, 0x938, 0x94D, 0x925, 0x93E, 0x928])])"

text \<open>\<^verbatim>\<open>(father|mother|\u092a\u093f\u0924\u093e|\u092e\u093e\u0924\u093e)\<close>\<close>

definition re_parents_name :: re where
  "re_parents_name =
     Grp 1 (alts [lits (asc ''father''),
                  lits (asc ''mother''),
                  lits ([0x92A, 0x93F, 0x924, 0x93E]),
                  lits ([0x92E, 0x93E, 0x924, 0x93E])])"

text \<open>\<^verbatim>\<open>(reg|registration).*?no\.?\s*:?\s*([A-Z0-9/-]+)\<close>\<close>

definition re_registration_number :: re where
  "re_registration_number =
     cat (Grp 1 (alts [lits (asc ''reg''),
                       lits (asc ''registration'')]) # number_tail)"

text \<open>\<^verbatim>\<open>(OBC|other backward class|backward class)\<close>\<close>

definition re_caste_ncl :: re where
  "re_caste_ncl =
     Grp 1 (alts [lits (asc ''OBC''),
                  lits (asc ''other backward class''),
                  lits (asc ''backward class'')])"

definition aadhaar_config :: doc_config where
  "aadhaar_config =
     \<lparr>doc_keywords =
        [asc ''aadhaar'', asc ''aadhar'', [0x906, 0x927, 0x93E, 0x930],
         asc ''unique identification'', asc ''government of india'', asc ''uidai'', asc ''uid'',
         asc ''enrollment'', asc ''enrolment'',
         [0x92D, 0x93E, 0x930, 0x924, 0x20, 0x938, 0x930, 0x915, 0x93E, 0x930],
         asc ''unique identity'', asc ''identification authority''],
      required_fields = [''12_digit_number'', ''name'', ''dob''],
      patterns =
        [(''12_digit_number'', re_12_digit_number),
         (''name'', re_name 2),
         (''dob'', re_dob_aadhaar),
         (''address'', re_address_aadhaar)],
      security_features =
        [asc ''hologram'', asc ''qr code'', asc ''secure paper'', asc ''watermark'']\<rparr>"

definition caste_certificate_config :: doc_config where
  "caste_certificate_config =
     \<lparr>doc_keywords =
        [asc ''caste certificate'',
         [0x91C, 0x93E, 0x924, 0x20, 0x92A, 0x94D, 0x930, 0x92E, 0x93E, 0x923, 0x92A, 0x924, 0x94D, 0x930],
         asc ''government of maharashtra'', asc ''tahsildar'', asc ''collector''],
      required_fields = [''name'', ''caste'', ''district'', ''signature_stamp'', ''certificate_number''],
      patterns =
        [(''name'', re_name 3),
         (''caste'', re_caste),
         (''district'', re_district),
         (''certificate_number'', re_certificate_number)],
      security_features =
        [asc ''government seal'', asc ''official signature'', asc ''letterhead'']\<rparr>"

definition income_certificate_config :: doc_config where
  "income_certificate_config =
     \<lparr>doc_keywords =
        [asc ''income certificate'',
         [0x909, 0x924, 0x94D, 0x92A, 0x928, 0x94D, 0x928, 0x20, 0x92A, 0x94D, 0x930, 0x92E, 0x93E, 0x923, 0x92A, 0x924, 0x94D, 0x930],
         asc ''annual income'', asc ''tahsildar'', asc ''revenue department''],
      required_fields = [''name'', ''annual_income'', ''issuing_authority'', ''certificate_number'', ''validity_date''],
      patterns =
        [(''name'', re_name 3),
         (''annual_income'', re_annual_income),
         (''certificate_number'', re_certificate_number),
         (''validity_date'', re_validity_date)],
      security_features =
        [asc ''government seal'', asc ''official signature'', asc ''revenue stamp'']\<rparr>"

definition domicile_certificate_config :: doc_config where
  "domicile_certificate_config =
     \<lparr>doc_keywords =
        [asc ''domicile certificate'',
         [0x928, 0x93F, 0x935, 0x93E, 0x938, 0x20, 0x92A, 0x94D, 0x930, 0x92E, 0x93E, 0x923, 0x92A, 0x924, 0x94D, 0x930],
         asc ''residence certificate'', asc ''maharashtra domicile''],
      required_fields = [''name'', ''address'', ''district'', ''issuing_authority'', ''certificate_number''],
      patterns =
        [(''name'', re_name 3),
         (''address'', re_address_domicile),
         (''district'', re_district),
         (''certificate_number'', re_certificate_number)],
      security_features =
        [asc ''government seal'', asc ''official signature'', asc ''letterhead'']\<rparr>"

definition birth_certificate_config :: doc_config where
  "birth_certificate_config =
     \<lparr>doc_keywords =
        [asc ''birth certificate'',
         [0x91C, 0x928, 0x94D, 0x92E, 0x20, 0x92A, 0x94D, 0x930, 0x92E, 0x93E, 0x923, 0x92A, 0x924, 0x94D, 0x930],
         asc ''registrar'', asc ''birth registration''],
      required_fields = [''name'', ''dob'', ''place_of_birth'', ''parents_name'', ''registration_number''],
      patterns =
        [(''name'', re_name 3),
         (''dob'', re_dob_birth),
         (''place_of_birth'', re_place_of_birth),
         (''parents_name'', re_parents_name),
         (''registration_number'', re_registration_number)],
      security_features =
        [asc ''registrar seal'', asc ''official signature'', asc ''security paper'']\<rparr>"

definition non_creamy_layer_config :: doc_config where
  "non_creamy_layer_config =
     \<lparr>doc_keywords =
        [asc ''non creamy layer'', asc ''non-creamy layer'', asc ''obc certificate'',
         asc ''creamy layer''],
      required_fields = [''name'', ''caste'', ''annual_income'', ''issuing_authority'', ''validity_date''],
      patterns =
        [(''name'', re_name 3),
         (''caste'', re_caste_ncl),
         (''annual_income'', re_annual_income),
         (''validity_date'', re_validity_date)],
      security_features =
        [asc ''government seal'', asc ''official signature'', asc ''letterhead'']\<rparr>"

definition document_patterns :: "(string \<times> doc_config) list" where
  "document_patterns =
     [(''aadhaar'', aadhaar_config),
      (''caste_certificate'', caste_certificate_config),
      (''income_certificate'', income_certificate_config),
      (''domicile_certificate'', domicile_certificate_config),
      (''birth_certificate'', birth_certificate_config),
      (''non_creamy_layer'', non_creamy_layer_config)]"

text \<open>\<open>self.fraud_indicators\<close>; \<open>duplicate\<close> is listed twice.\<close>

definition fraud_indicators :: "str list" where
  "fraud_indicators =
     [asc ''photocopy'', asc ''xerox'', asc ''duplicate'', asc ''sample'', asc ''specimen'',
      asc ''draft'', asc ''watermark missing'', asc ''poor quality'', asc ''blurred text'',
      asc ''copy'', asc ''duplicate'', asc ''not original'', asc ''scanned copy'',
      asc ''printout'']"

section \<open>Text analysis and type detection\<close>

text \<open>\<^verbatim>\<open>\d{1,2}[/-]\d{1,2}[/-]\d{4}\<close> and \<^verbatim>\<open>[\u0900-\u097f]\<close>\<close>

definition re_date :: re where
  "re_date = cat [between 1 2 dig, sep, between 1 2 dig, sep, times 4 dig]"
























section \<open>Security features, integrity and field validation\<close>

datatype py_error = KeyError string

text \<open>
  The result of \<open>check_security_features\<close>: a dictionary that lacks the key
  \<open>found_security\<close> when the type is not registered.
\<close>

record security_check =
  security_score :: rat
  found_security :: "str list option"
  warnings :: "str list"

definition check_security_features :: "str \<Rightarrow> string \<Rightarrow> security_check" where
  "check_security_features text document_type =
     (case map_of document_patterns document_type of
        None \<Rightarrow>
          \<lparr>security_score = 0, found_security = None,
           warnings = [asc ''Unknown document type'']\<rparr>
      | Some config \<Rightarrow>
          \<lparr>security_score =
             (if security_features config \<noteq> []
              then of_nat (length (filter (\<lambda>feature. py_in (py_lower feature) (py_lower text))
                                     (security_features config)))
                   / of_nat (length (security_features config))
              else 1),
           found_security =
             Some (filter (\<lambda>feature. py_in (py_lower feature) (py_lower text))
                     (security_features config)),
           warnings =
             map (\<lambda>indicator. asc ''Potential fraud indicator: '' @ indicator)
               (filter (\<lambda>indicator. py_in (py_lower indicator) (py_lower text))
                  fraud_indicators)\<rparr>)"

text \<open>
  The four patterns of the integrity check that are not already named:
  \<^verbatim>\<open>[A-Za-z]{3,}\<close>, \<^verbatim>\<open>[^\w\s]\<close> and \<^verbatim>\<open>[A-Z]{2,}\<close> (\<^verbatim>\<open>\d\<close> is \<open>dig\<close>).
\<close>

definition re_meaningful :: re where
  "re_meaningful = at_least 3 (Cls [Rng 65 90, Rng 97 122])"

definition re_special :: re where
  "re_special = NCls [Words, Spaces]"

definition re_uppercase :: re where
  "re_uppercase = at_least 2 (Cls [Rng 65 90])"

definition govt_terms :: "str list" where
  "govt_terms =
     [asc ''government'', [0x938, 0x930, 0x915, 0x93E, 0x930], asc ''authority'',
      [0x92A, 0x94D, 0x930, 0x93E, 0x927, 0x93F, 0x915, 0x930, 0x923], asc ''official'',
      asc ''seal'', asc ''signature'']"

record integrity =
  text_quality :: int
  structure_score :: int
  authenticity_markers :: "str list"
  red_flags :: "str list"

definition validate_document_integrity :: "str \<Rightarrow> string \<Rightarrow> integrity" where
  "validate_document_integrity text document_type =
     \<lparr>text_quality =
        (if 100 < length text then 20 else 0)
        + (if 300 < length text then 20 else 0)
        + (if re_found False re_meaningful text then 20 else 0)
        + (if \<not> re_found False re_special text then 20 else 0),
      structure_score =
        (if re_found False dig text then 10 else 0)
        + (if re_found False re_uppercase text then 10 else 0)
        + (if re_found False re_date text then 15 else 0),
      authenticity_markers =
        filter (\<lambda>term. py_in (py_lower term) (py_lower text)) govt_terms,
      red_flags =
        filter (\<lambda>indicator. py_in (py_lower indicator) (py_lower text)) fraud_indicators\<rparr>"

text \<open>\<open>sum(1 for term in terms if term.lower() in text.lower())\<close>\<close>

definition term_matches :: "str list \<Rightarrow> str \<Rightarrow> int" where
  "term_matches terms text =
     int (length (filter (\<lambda>term. py_in (py_lower term) (py_lower text)) terms))"

definition signature_terms :: "str list" where
  "signature_terms =
     [asc ''signature'', asc ''stamp'', asc ''seal'', asc ''signed'', asc ''authorized'',
      [0x939, 0x938, 0x94D, 0x924, 0x93E, 0x915, 0x94D, 0x937, 0x930]]"

definition authority_terms :: "str list" where
  "authority_terms =
     [asc ''tahsildar'', asc ''collector'', asc ''registrar'', asc ''officer'',
      asc ''authority'', [0x92A, 0x94D, 0x930, 0x93E, 0x927, 0x93F, 0x915, 0x930, 0x923]]"

definition address_terms :: "str list" where
  "address_terms =
     [asc ''address'', [0x92A, 0x924, 0x93E], asc ''residence'',
      [0x928, 0x93F, 0x935, 0x93E, 0x938], asc ''village'', asc ''city'', asc ''district'']"

text \<open>
  The body of the loop over the required fields, up to the assignment of \<open>field_found\<close> and
  \<open>confidence\<close>.  The values stored in \<open>extracted_data\<close> influence neither the score nor the
  verdict; they are left out of the embedding.
\<close>

definition check_field :: "(string \<times> re) list \<Rightarrow> str \<Rightarrow> string \<Rightarrow> bool \<times> int" where
  "check_field pats text field =
     (case map_of pats field of
        Some pattern \<Rightarrow>
          (if finditer True pattern text \<noteq> []
           then (True, min 100 (int (length (finditer True pattern text)) * 30 + 40))
           else (False, 0))
      | None \<Rightarrow>
          if field = ''signature_stamp''
          then (if 1 \<le> term_matches signature_terms text
                then (True, min 100 (term_matches signature_terms text * 25 + 25))
                else (False, 0))
          else if field = ''issuing_authority''
          then (if 1 \<le> term_matches authority_terms text
                then (True, min 100 (term_matches authority_terms text * 30 + 30))
                else (False, 0))
          else if field = ''address''
          then (if 1 \<le> term_matches address_terms text
                then (True, min 100 (term_matches address_terms text * 20 + 40))
                else (False, 0))
          else (True, 50))"

text \<open>
  The rest of the loop body: the lists \<open>found_fields\<close> and \<open>missing_fields\<close> and the
  dictionary \<open>field_confidence\<close>.
\<close>

type_synonym field_acc = "string list \<times> string list \<times> (string \<times> int) list"

definition field_step :: "(string \<times> re) list \<Rightarrow> str \<Rightarrow> field_acc \<Rightarrow> string \<Rightarrow> field_acc" where
  "field_step pats text acc field =
     (case acc of (found_fields, missing_fields, field_confidence) \<Rightarrow>
        if fst (check_field pats text field)
        then (found_fields @ [field], missing_fields,
              AList.update field (snd (check_field pats text field)) field_confidence)
        else (found_fields, missing_fields @ [field],
              AList.update field 0 field_confidence))"

definition field_loop :: "(string \<times> re) list \<Rightarrow> str \<Rightarrow> string list \<Rightarrow> field_acc" where
  "field_loop pats text required = foldl (field_step pats text) ([], [], []) required"


section \<open>The validation engine\<close>

record validation_report =
  valid :: bool
  validity_score :: rat
  missing_fields :: "string list"
  found_fields :: "string list"
  field_confidence :: "(string \<times> int) list"
  field_ratio :: rat
  avg_field_confidence :: rat
  report_security_score :: rat
  security_warnings :: "str list"
  report_found_security :: "str list"
  integrity_check :: integrity
  report_authenticity_markers :: "str list"
  report_red_flags :: "str list"

text \<open>
  \<open>validate_document\<close> returns one of two dictionaries: for a type that is not registered
  only \<open>valid\<close> and \<open>missing_fields\<close>, otherwise the full report.  The keys \<open>security_score\<close>,
  \<open>found_security\<close>, \<open>authenticity_markers\<close> and \<open>red_flags\<close> of the report carry the prefix
  \<open>report_\<close> here.
\<close>

datatype validation_result =
    Unknown_Type_Report bool "string list"
  | Report validation_report

definition weighted_validity :: "rat \<Rightarrow> rat \<Rightarrow> rat \<Rightarrow> rat \<Rightarrow> rat" where
  "weighted_validity ratio avg_confidence security_ratio integrity_score =
     ratio * 0.3 + (avg_confidence / 100) * 0.25 + security_ratio * 0.25 + integrity_score * 0.2"

definition build_report ::
    "string list \<Rightarrow> field_acc \<Rightarrow> integrity \<Rightarrow> security_check \<Rightarrow> str list \<Rightarrow> validation_report" where
  "build_report required acc integ sec found_sec =
     (case acc of (found, missing, confidence) \<Rightarrow>
        \<lparr>valid =
           (0.6 \<le> max 0 (weighted_validity
                       (if required \<noteq> [] then of_nat (length found) / of_nat (length required) else 0)
                       (if confidence \<noteq> []
                        then of_int (sum_list (map snd confidence)) / of_nat (length confidence)
                        else 0)
                       (security_score sec)
                       (of_int (text_quality integ + structure_score integ) / 100)
                     - of_nat (length (red_flags integ)) * 0.1)
            \<and> length (red_flags integ) = 0),
         validity_score =
           max 0 (weighted_validity
                    (if required \<noteq> [] then of_nat (length found) / of_nat (length required) else 0)
                    (if confidence \<noteq> []
                     then of_int (sum_list (map snd confidence)) / of_nat (length confidence)
                     else 0)
                    (security_score sec)
                    (of_int (text_quality integ + structure_score integ) / 100)
                  - of_nat (length (red_flags integ)) * 0.1),
         missing_fields = missing,
         found_fields = found,
         field_confidence = confidence,
         field_ratio =
           (if required \<noteq> [] then of_nat (length found) / of_nat (length required) else 0),
         avg_field_confidence =
           (if confidence \<noteq> []
            then of_int (sum_list (map snd confidence)) / of_nat (length confidence)
            else 0),
         report_security_score = security_score sec,
         security_warnings = warnings sec,
         report_found_security = found_sec,
         integrity_check = integ,
         report_authenticity_markers = authenticity_markers integ,
         report_red_flags = red_flags integ\<rparr>)"

definition validate_document :: "str \<Rightarrow> string \<Rightarrow> py_error + validation_result" where
  "validate_document text document_type =
     (case map_of document_patterns document_type of
        None \<Rightarrow> Inr (Unknown_Type_Report False [''Unknown document type''])
      | Some config \<Rightarrow>
          (case found_security (check_security_features text document_type) of
             None \<Rightarrow> Inl (KeyError ''found_security'')
           | Some found_sec \<Rightarrow>
               Inr (Report (build_report (required_fields config)
                              (field_loop (patterns config) text (required_fields config))
                              (validate_document_integrity text document_type)
                              (check_security_features text document_type)
                              found_sec))))"

text \<open>\<open>result['validity_score']\<close> and \<open>result['valid']\<close>, \<open>result['missing_fields']\<close>\<close>

fun get_validity_score :: "validation_result \<Rightarrow> py_error + rat" where
  "get_validity_score (Unknown_Type_Report v ms) = Inl (KeyError ''validity_score'')"
| "get_validity_score (Report r) = Inr (validity_score r)"

fun get_valid :: "validation_result \<Rightarrow> bool" where
  "get_valid (Unknown_Type_Report v ms) = v"
| "get_valid (Report r) = valid r"

fun get_missing_fields :: "validation_result \<Rightarrow> string list" where
  "get_missing_fields (Unknown_Type_Report v ms) = ms"
| "get_missing_fields (Report r) = missing_fields r"


section \<open>Expiry dates\<close>

text \<open>
  A \<open>datetime\<close> is a number of microseconds on the proleptic Gregorian time line, day 1
  being 1 January of year 1 as in \<open>date.toordinal\<close>; the current time \<open>datetime.now()\<close> is an
  argument.  \<open>(a - b).days\<close> is the floor of the difference in days.
\<close>

type_synonym datetime = int

definition day_us :: int where
  "day_us = 86400000000"

definition is_leap :: "int \<Rightarrow> bool" where
  "is_leap y \<longleftrightarrow> y mod 4 = 0 \<and> (y mod 100 \<noteq> 0 \<or> y mod 400 = 0)"

definition days_in_month :: "int \<Rightarrow> int \<Rightarrow> int" where
  "days_in_month y mth =
     (if mth = 2 then (if is_leap y then 29 else 28)
      else if mth = 4 \<or> mth = 6 \<or> mth = 9 \<or> mth = 11 then 30 else 31)"

definition days_before_year :: "int \<Rightarrow> int" where
  "days_before_year y = (y - 1) * 365 + (y - 1) div 4 - (y - 1) div 100 + (y - 1) div 400"

definition days_before_month :: "int \<Rightarrow> int \<Rightarrow> int" where
  "days_before_month y mth = sum_list (map (days_in_month y) [1..mth - 1])"

definition ymd2ord :: "int \<Rightarrow> int \<Rightarrow> int \<Rightarrow> int" where
  "ymd2ord y mth dd = days_before_year y + days_before_month y mth + dd"

text \<open>\<open>int(s)\<close> on a string of decimal digits, white space around it ignored\<close>

definition digit_val :: "nat \<Rightarrow> int" where
  "digit_val c = (if 48 \<le> c \<and> c \<le> 57 then int c - 48 else int c - 0x966)"

definition py_int :: "str \<Rightarrow> int" where
  "py_int s = foldl (\<lambda>a c. 10 * a + digit_val c) 0 (py_strip s)"

text \<open>
  \<open>datetime.strptime\<close> turns the format into a regular expression, one named group per
  directive (here groups 1, 2, 3 for \<open>d\<close>, \<open>m\<close>, \<open>Y\<close>):
  \<^verbatim>\<open>(?P<d>3[0-1]|[1-2]\d|0[1-9]|[1-9]| [1-9])\<close>, \<^verbatim>\<open>(?P<m>1[0-2]|0[1-9]|[1-9])\<close>,
  \<^verbatim>\<open>(?P<Y>\d\d\d\d)\<close>.  It matches it at the start of the string, ignoring case, and fails
  with \<open>ValueError\<close> (here \<open>None\<close>) when the match does not reach the end of the string or the
  numbers are not a date.
\<close>

definition directive_re :: "nat \<Rightarrow> re option" where
  "directive_re c =
     (if c = 100 then
        Some (Grp 1 (alts [cat [Lit 51, Cls [Rng 48 49]], cat [Cls [Rng 49 50], dig],
                           cat [Lit 48, Cls [Rng 49 57]], Cls [Rng 49 57],
                           cat [Lit 32, Cls [Rng 49 57]]]))
      else if c = 109 then
        Some (Grp 2 (alts [cat [Lit 49, Cls [Rng 48 50]], cat [Lit 48, Cls [Rng 49 57]],
                           Cls [Rng 49 57]]))
      else if c = 89 then Some (Grp 3 (cat [dig, dig, dig, dig]))
      else None)"

fun format_regex :: "str \<Rightarrow> re list option" where
  "format_regex [] = Some []"
| "format_regex [c] = (if c = 37 then None else Some [Lit c])"
| "format_regex (c # e # s) =
     (if c = 37
      then (case directive_re e of
              None \<Rightarrow> None
            | Some r \<Rightarrow> map_option (\<lambda>rs. r # rs) (format_regex s))
      else map_option (\<lambda>rs. Lit c # rs) (format_regex (e # s)))"

definition group_int :: "mstate \<Rightarrow> nat \<Rightarrow> int \<Rightarrow> int" where
  "group_int found n dflt = (case group found n of None \<Rightarrow> dflt | Some s \<Rightarrow> py_int s)"

definition strptime :: "str \<Rightarrow> str \<Rightarrow> datetime option" where
  "strptime data_string fmt =
     (case format_regex fmt of
        None \<Rightarrow> None
      | Some rs \<Rightarrow>
          (case m True (cat rs) Some \<lparr>prev = None, rest = data_string, caps = []\<rparr> of
             None \<Rightarrow> None
           | Some found \<Rightarrow>
               if rest found \<noteq> [] then None
               else if 1 \<le> group_int found 3 1900
                       \<and> 1 \<le> group_int found 2 1 \<and> group_int found 2 1 \<le> 12
                       \<and> 1 \<le> group_int found 1 1
                       \<and> group_int found 1 1
                           \<le> days_in_month (group_int found 3 1900) (group_int found 2 1)
               then Some (ymd2ord (group_int found 3 1900) (group_int found 2 1)
                            (group_int found 1 1) * day_us)
               else None))"

record expiry_info =
  has_expiry :: bool
  expired :: bool
  expires_soon :: bool
  expiry_date :: "str option"

text \<open>
  The four templates, each ending in \<open>date_token\<close>:
  \<^verbatim>\<open>valid.*?until.*?\<close>, \<^verbatim>\<open>expires.*?on.*?\<close>, \<^verbatim>\<open>validity.*?\<close>, \<^verbatim>\<open>valid.*?upto.*?\<close>.
\<close>

definition validity_patterns :: "re list" where
  "validity_patterns =
     [cat [lits (asc ''valid''), lazy_star Dot, lits (asc ''until''), lazy_star Dot, date_token],
      cat [lits (asc ''expires''), lazy_star Dot, lits (asc ''on''), lazy_star Dot, date_token],
      cat [lits (asc ''validity''), lazy_star Dot, date_token],
      cat [lits (asc ''valid''), lazy_star Dot, lits (asc ''upto''), lazy_star Dot, date_token]]"

definition date_formats :: "str list" where
  "date_formats = [asc ''%d/%m/%Y'', asc ''%d-%m-%Y'', asc ''%m/%d/%Y'', asc ''%m-%d-%Y'']"

definition days_until :: "datetime \<Rightarrow> datetime \<Rightarrow> int" where
  "days_until parsed today = (parsed - today) div day_us"

text \<open>The inner loop over the formats: \<open>ValueError\<close> goes on to the next format, a parsed
  date ends the loop.\<close>

primrec try_formats :: "str \<Rightarrow> datetime \<Rightarrow> expiry_info \<Rightarrow> str list \<Rightarrow> expiry_info" where
  "try_formats date_str today info [] = info"
| "try_formats date_str today info (fmt # fmts) =
     (case strptime date_str fmt of
        None \<Rightarrow> try_formats date_str today info fmts
      | Some parsed \<Rightarrow>
          info\<lparr>has_expiry := True,
               expiry_date := Some date_str,
               expired := (if days_until parsed today < 0 then True else expired info),
               expires_soon :=
                 (if days_until parsed today < 0 then expires_soon info
                  else if days_until parsed today < 30 then True
                  else expires_soon info)\<rparr>)"

text \<open>The outer loop over the templates: the first template that matches ends the loop,
  whatever the formats make of its date.\<close>

primrec try_patterns :: "str \<Rightarrow> datetime \<Rightarrow> expiry_info \<Rightarrow> re list \<Rightarrow> expiry_info" where
  "try_patterns text today info [] = info"
| "try_patterns text today info (pattern # ps) =
     (case re_search True pattern text of
        None \<Rightarrow> try_patterns text today info ps
      | Some mt \<Rightarrow>
          (case group mt 1 of
             None \<Rightarrow> try_patterns text today info ps
           | Some date_str \<Rightarrow> try_formats date_str today info date_formats))"

definition check_expiry_date :: "str \<Rightarrow> string \<Rightarrow> datetime \<Rightarrow> expiry_info" where
  "check_expiry_date text document_type today =
     try_patterns text today
       \<lparr>has_expiry = False, expired = False, expires_soon = False, expiry_date = None\<rparr>
       validity_patterns"


section \<open>The document check\<close>

text \<open>
  \<open>check_document\<close> from the extracted text on; reading the file (OCR, PDF) is outside the
  embedding and its result is the argument \<open>extracted_text\<close>.  The five dictionaries it can
  return share the keys \<open>document_type\<close>, \<open>valid\<close>, \<open>missing_fields\<close>, \<open>suggestion\<close> and
  \<open>confidence\<close>; what else they hold is the \<open>extra\<close> part.
\<close>

record analysis =
  a_found_fields :: "string list"
  a_field_confidence :: "(string \<times> int) list"
  a_avg_field_confidence :: rat
  a_security_score :: rat
  a_security_warnings :: "str list"
  a_integrity_check :: integrity
  a_authenticity_markers :: "str list"
  a_red_flags :: "str list"
  a_expiry_info :: expiry_info

datatype check_extra =
    Error_Details str
  | Extracted_Text_Length nat
  | Extracted_Text_Sample str
  | Analysis analysis
  | No_Extra

record check_result =
  document_type :: string
  result_valid :: bool
  result_missing_fields :: "string list"
  suggestion :: str
  confidence :: rat
  extra :: check_extra












section \<open>The analytics log\<close>

record log_entry =
  timestamp :: datetime
  entry_document_type :: string
  entry_valid :: bool
  entry_confidence :: rat
  entry_security_score :: rat

text \<open>\<open>result.get('security_score', 0)\<close>: only a completed check has the key.\<close>

definition get_security_score :: "check_result \<Rightarrow> rat" where
  "get_security_score result =
     (case extra result of Analysis a \<Rightarrow> a_security_score a | _ \<Rightarrow> 0)"

definition make_entry :: "check_result \<Rightarrow> datetime \<Rightarrow> log_entry" where
  "make_entry result today =
     \<lparr>timestamp = today,
      entry_document_type = document_type result,
      entry_valid = result_valid result,
      entry_confidence = confidence result,
      entry_security_score = get_security_score result\<rparr>"

text \<open>\<open>log_validation\<close> on the list \<open>self.validation_history\<close>, which it returns updated.\<close>

definition log_validation :: "log_entry list \<Rightarrow> check_result \<Rightarrow> datetime \<Rightarrow> log_entry list" where
  "log_validation validation_history result today =
     (if 100 < length (validation_history @ [make_entry result today])
      then drop (length (validation_history @ [make_entry result today]) - 100)
             (validation_history @ [make_entry result today])
      else validation_history @ [make_entry result today])"


section \<open>Notions used in the proofs\<close>

text \<open>
  \<open>needs_sep r\<close> is a syntactic condition under which every match of \<open>r\<close> reads one of the
  characters \<open>/\<close> and \<open>-\<close>; \<open>passes k st x q\<close> says that the result \<open>x\<close> was produced by the
  continuation \<open>k\<close> at a state further on in the text of \<open>st\<close>, the text in between holding
  such a character if \<open>q\<close>.
\<close>

definition sep_in :: "str \<Rightarrow> bool" where
  "sep_in u \<longleftrightarrow> (\<exists>c \<in> set u. c = 47 \<or> c = 45)"

fun needs_sep :: "re \<Rightarrow> bool" where
  "needs_sep (Cls items) = (items \<noteq> [] \<and> (\<forall>i \<in> set items. i = Chr 47 \<or> i = Chr 45))"
| "needs_sep (Seq a b) = (needs_sep a \<or> needs_sep b)"
| "needs_sep (Alt a b) = (needs_sep a \<and> needs_sep b)"
| "needs_sep (Rep lo hi g r) = (0 < lo \<and> needs_sep r)"
| "needs_sep (Grp n r) = needs_sep r"
| "needs_sep r = False"

definition passes :: "cont \<Rightarrow> mstate \<Rightarrow> mstate \<Rightarrow> bool \<Rightarrow> bool" where
  "passes k st x q \<longleftrightarrow>
     (\<exists>st' u. k st' = Some x \<and> rest st = u @ rest st' \<and> (q \<longrightarrow> sep_in u))"

text \<open>
  The keys of a dictionary filled by assignments in the order of a list, and the running
  best entry of the two \<open>max\<close> scans.
\<close>

definition add_key :: "string list \<Rightarrow> string \<Rightarrow> string list" where
  "add_key ks k = (if k \<in> set ks then ks else ks @ [k])"

definition dict_keys :: "string list \<Rightarrow> string list" where
  "dict_keys required = foldl add_key [] required"


text \<open>
  The expiry resolver in the words of its description: the first template that matches, the
  date it captured, the first format that parses the date.
\<close>

definition no_expiry :: expiry_info where
  "no_expiry = \<lparr>has_expiry = False, expired = False, expires_soon = False, expiry_date = None\<rparr>"

definition first_template_match :: "str \<Rightarrow> mstate option" where
  "first_template_match text =
     (case find (\<lambda>pattern. re_found True pattern text) validity_patterns of
        None \<Rightarrow> None
      | Some pattern \<Rightarrow> re_search True pattern text)"

definition first_parse :: "str \<Rightarrow> datetime option" where
  "first_parse date_str =
     (case find (\<lambda>fmt. strptime date_str fmt \<noteq> None) date_formats of
        None \<Rightarrow> None
      | Some fmt \<Rightarrow> strptime date_str fmt)"

definition expiry_spec :: "str \<Rightarrow> datetime \<Rightarrow> expiry_info" where
  "expiry_spec text today =
     (case first_template_match text of
        None \<Rightarrow> no_expiry
      | Some mt \<Rightarrow>
          (case group mt 1 of
             None \<Rightarrow> no_expiry
           | Some date_str \<Rightarrow>
               (case first_parse date_str of
                  None \<Rightarrow> no_expiry
                | Some parsed \<Rightarrow>
                    \<lparr>has_expiry = True,
                     expired = (parsed < today),
                     expires_soon = (0 \<le> days_until parsed today \<and> days_until parsed today < 30),
                     expiry_date = Some date_str\<rparr>)))"


section \<open>Properties of the matcher\<close>

lemma passes_refl: "k st = Some x \<Longrightarrow> passes k st x False"
  by (auto simp: passes_def)

lemma passes_weaken: "passes k st x q \<Longrightarrow> (q' \<longrightarrow> q) \<Longrightarrow> passes k st x q'"
  by (auto simp: passes_def)

lemma sep_in_append: "sep_in (u @ v) \<longleftrightarrow> sep_in u \<or> sep_in v"
  by (auto simp: sep_in_def)

lemma passes_trans:
  assumes "passes k1 st x q1" and "\<And>st1. k1 st1 = Some x \<Longrightarrow> passes k st1 x q2"
  shows "passes k st x (q1 \<or> q2)"
proof -
  from assms(1) obtain st1 u where a: "k1 st1 = Some x" "rest st = u @ rest st1" "q1 \<longrightarrow> sep_in u"
    by (auto simp: passes_def)
  from assms(2)[OF a(1)] obtain st' v where b: "k st' = Some x" "rest st1 = v @ rest st'" "q2 \<longrightarrow> sep_in v"
    by (auto simp: passes_def)
  have "rest st = (u @ v) @ rest st'" using a b by simp
  moreover have "q1 \<or> q2 \<longrightarrow> sep_in (u @ v)" using a b by (auto simp: sep_in_append)
  ultimately show ?thesis using b(1) unfolding passes_def by blast
qed

lemma step_passes:
  assumes "step ok k st = Some x"
  shows "passes k st x (\<forall>c. ok c \<longrightarrow> c = 47 \<or> c = 45)"
proof -
  from assms obtain c cs where r: "rest st = c # cs" "ok c" "k (st\<lparr>prev := Some c, rest := cs\<rparr>) = Some x"
    by (auto simp: step_def split: list.splits if_splits)
  show ?thesis unfolding passes_def
    by (rule exI[of _ "st\<lparr>prev := Some c, rest := cs\<rparr>"], rule exI[of _ "[c]"])
       (use r in \<open>auto simp: sep_in_def\<close>)
qed

lemma rep_passes:
  assumes f: "\<And>k st x. f k st = Some x \<Longrightarrow> passes k st x q"
  shows "rep n f lo g k st = Some x \<Longrightarrow> passes k st x (0 < lo \<and> q)"
proof (induction n arbitrary: lo k st)
  case 0
  then show ?case by (auto split: if_splits intro: passes_weaken[OF passes_refl])
next
  case (Suc n)
  show ?case
  proof (cases "0 < lo")
    case True
    with Suc.prems have "f (rep n f (lo - 1) g k) st = Some x" by simp
    from passes_trans[OF f[OF this], of k "0 < lo - 1 \<and> q"] Suc.IH
    have "passes k st x (q \<or> (0 < lo - 1 \<and> q))" by blast
    then show ?thesis by (rule passes_weaken) auto
  next
    case False
    with Suc.prems have "f (rep n f 0 g k) st = Some x \<or> k st = Some x"
      by (auto split: if_splits option.splits)
    then show ?thesis
    proof
      assume "f (rep n f 0 g k) st = Some x"
      from passes_trans[OF f[OF this], of k "0 < (0::nat) \<and> q"] Suc.IH
      have "passes k st x (q \<or> (0 < (0::nat) \<and> q))" by blast
      then show ?thesis by (rule passes_weaken) (use False in auto)
    next
      assume "k st = Some x"
      then show ?thesis by (rule passes_weaken[OF passes_refl]) (use False in auto)
    qed
  qed
qed

lemma in_class_sep:
  assumes "\<forall>i \<in> set items. i = Chr 47 \<or> i = Chr 45" and "in_class ic items c"
  shows "c = 47 \<or> c = 45"
proof -
  from assms(2) obtain i where i: "i \<in> set items"
      "in_cset i c \<or> in_cset i (lower_c c) \<or> in_cset i (upper_c c)"
    by (auto simp: in_class_def list_ex_iff)
  with assms(1) have "i = Chr 47 \<or> i = Chr 45" by blast
  with i(2) show ?thesis
    by (auto simp: lower_c_def upper_c_def split: if_splits)
qed

lemma m_passes: "m ic r k st = Some x \<Longrightarrow> passes k st x (needs_sep r)"
proof (induction r arbitrary: k st x)
  case Eps
  then show ?case by (auto intro: passes_refl)
next
  case (Lit a)
  then show ?case by (auto intro: passes_weaken[OF step_passes])
next
  case (Cls items)
  then have "passes k st x (\<forall>c. in_class ic items c \<longrightarrow> c = 47 \<or> c = 45)"
    by (auto intro: step_passes)
  then show ?case by (rule passes_weaken) (auto dest: in_class_sep)
next
  case (NCls items)
  then show ?case by (auto intro: passes_weaken[OF step_passes])
next
  case Dot
  then show ?case by (auto intro: passes_weaken[OF step_passes])
next
  case WordB
  then show ?case by (auto split: if_splits intro: passes_refl)
next
  case (Seq a b)
  from Seq.prems have "m ic a (m ic b k) st = Some x" by simp
  from passes_trans[OF Seq.IH(1)[OF this], of k "needs_sep b"] Seq.IH(2)
  show ?case by auto
next
  case (Alt a b)
  from Alt.prems have "m ic a k st = Some x \<or> m ic b k st = Some x"
    by (auto split: option.splits)
  then show ?case
  proof
    assume "m ic a k st = Some x"
    from Alt.IH(1)[OF this] show ?thesis by (rule passes_weaken) simp
  next
    assume "m ic b k st = Some x"
    from Alt.IH(2)[OF this] show ?thesis by (rule passes_weaken) simp
  qed
next
  case (Rep lo hi g r)
  from Rep.prems rep_passes[of "m ic r" "needs_sep r", OF Rep.IH]
  show ?case by auto
next
  case (Grp n r)
  from Grp.prems have "m ic r (\<lambda>st'. k (capture n st st')) st = Some x" by simp
  from Grp.IH[OF this] obtain st' u where
    a: "k (capture n st st') = Some x" "rest st = u @ rest st'" "needs_sep r \<longrightarrow> sep_in u"
    by (auto simp: passes_def)
  show ?case unfolding passes_def
    by (rule exI[of _ "capture n st st'"], rule exI[of _ u]) (use a in \<open>auto simp: capture_def\<close>)
qed

lemma search_from_start:
  "search_from ic r p s = Some x \<Longrightarrow>
     \<exists>p' u s'. s = u @ s' \<and> m ic r Some \<lparr>prev = p', rest = s', caps = []\<rparr> = Some x"
proof (induction s arbitrary: p)
  case Nil
  then show ?case by auto
next
  case (Cons c cs)
  show ?case
  proof (cases "m ic r Some \<lparr>prev = p, rest = c # cs, caps = []\<rparr>")
    case None
    with Cons.prems have "search_from ic r (Some c) cs = Some x" by simp
    from Cons.IH[OF this] obtain p' u s' where
      "cs = u @ s'" "m ic r Some \<lparr>prev = p', rest = s', caps = []\<rparr> = Some x" by blast
    then have "c # cs = (c # u) @ s'" by simp
    then show ?thesis using \<open>m ic r Some \<lparr>prev = p', rest = s', caps = []\<rparr> = Some x\<close> by blast
  next
    case (Some y)
    with Cons.prems have "y = x" by simp
    with Some show ?thesis by (intro exI[of _ p] exI[of _ "[]"] exI[of _ "c # cs"]) simp
  qed
qed

lemma found_needs_sep:
  assumes "re_found ic r s" and "needs_sep r"
  shows "sep_in s"
proof -
  from assms(1) obtain x where "search_from ic r None s = Some x"
    by (auto simp: re_found_def re_search_def)
  from search_from_start[OF this] obtain p' u s' where
    s: "s = u @ s'" and mm: "m ic r Some \<lparr>prev = p', rest = s', caps = []\<rparr> = Some x" by blast
  from m_passes[OF mm] assms(2) obtain v where "s' = v @ rest x" "sep_in v"
    unfolding passes_def by auto
  with s show ?thesis by (auto simp: sep_in_def)
qed

lemma needs_sep_date: "needs_sep re_date"
  by (simp add: re_date_def cat_def sep_def)

lemma search_special:
  "search_from False re_special p s \<noteq> None \<longleftrightarrow> (\<exists>c \<in> set s. \<not> is_word c \<and> \<not> is_space c)"
  by (induction s arbitrary: p)
     (auto simp: re_special_def step_def in_class_def split: option.splits)

lemma found_special:
  "re_found False re_special s \<longleftrightarrow> (\<exists>c \<in> set s. \<not> is_word c \<and> \<not> is_space c)"
  using search_special[of None s] by (simp add: re_found_def re_search_def)

lemma date_special:
  assumes "re_found False re_date s"
  shows "re_found False re_special s"
proof -
  from found_needs_sep[OF assms needs_sep_date] obtain c where "c \<in> set s" "c = 47 \<or> c = 45"
    by (auto simp: sep_in_def)
  moreover have "\<not> is_word 47 \<and> \<not> is_space 47 \<and> \<not> is_word 45 \<and> \<not> is_space 45"
    by (simp add: is_word_def is_space_def)
  ultimately have "\<exists>c \<in> set s. \<not> is_word c \<and> \<not> is_space c" by blast
  then show ?thesis by (simp add: found_special)
qed

subsection \<open>Evaluation on concrete texts\<close>

lemma rep_numeral:
  "rep (numeral n) f lo g k st =
     (if 0 < lo then f (rep (pred_numeral n) f (lo - 1) g k) st
      else if g then (case f (rep (pred_numeral n) f 0 g k) st of Some x \<Rightarrow> Some x | None \<Rightarrow> k st)
      else (case k st of Some x \<Rightarrow> Some x | None \<Rightarrow> f (rep (pred_numeral n) f 0 g k) st))"
  by (simp add: numeral_eq_Suc)

lemmas re_notation =
  cat_def lits_def times_def between_def at_least_def star_def plus_def opt_def lazy_star_def
  dig_def wsp_def sep_def ws_dash_def

lemmas engine_eval =
  asc_def is_space_def is_digit_def is_word_def lower_c_def upper_c_def in_class_def step_def
  at_boundary_def capture_def rep_numeral re_found_def re_search_def finditer_def
  finditer_from.simps group_def re_notation




section \<open>The loop over the required fields\<close>

lemma update_keyed:
  "AList.update k (c k) (map (\<lambda>a. (a, c a)) ks) = map (\<lambda>a. (a, c a)) (add_key ks k)"
  by (induction ks) (auto simp: add_key_def)

lemma check_field_missing: "\<not> fst (check_field pats t field) \<Longrightarrow> snd (check_field pats t field) = 0"
proof (cases "map_of pats field")
  case (Some p)
  assume "\<not> fst (check_field pats t field)"
  with Some show ?thesis by (cases "finditer True p t = []") (simp_all add: check_field_def)
next
  case None
  assume a: "\<not> fst (check_field pats t field)"
  consider "field = ''signature_stamp''" | "field \<noteq> ''signature_stamp''" "field = ''issuing_authority''"
    | "field \<noteq> ''signature_stamp''" "field \<noteq> ''issuing_authority''" "field = ''address''"
    | "field \<noteq> ''signature_stamp''" "field \<noteq> ''issuing_authority''" "field \<noteq> ''address''"
    by blast
  then show ?thesis
  proof cases
    case 1
    with None a show ?thesis
      by (cases "1 \<le> term_matches signature_terms t") (simp_all add: check_field_def)
  next
    case 2
    with None a show ?thesis
      by (cases "1 \<le> term_matches authority_terms t") (simp_all add: check_field_def)
  next
    case 3
    with None a show ?thesis
      by (cases "1 \<le> term_matches address_terms t") (simp_all add: check_field_def)
  next
    case 4
    with None a show ?thesis by (simp add: check_field_def)
  qed
qed

lemma check_field_pattern:
  "map_of pats field = Some p \<Longrightarrow>
     check_field pats t field =
       (if finditer True p t \<noteq> [] then (True, min 100 (int (length (finditer True p t)) * 30 + 40))
        else (False, 0))"
  by (simp add: check_field_def)

lemma check_field_default:
  "map_of pats field = None \<Longrightarrow> field \<noteq> ''signature_stamp'' \<Longrightarrow>
   field \<noteq> ''issuing_authority'' \<Longrightarrow> field \<noteq> ''address'' \<Longrightarrow>
     check_field pats t field = (True, 50)"
  by (simp add: check_field_def)

lemma field_step_keyed:
  "field_step pats text (f, ms, map (\<lambda>a. (a, snd (check_field pats text a))) ks) x =
     (f @ filter (\<lambda>a. fst (check_field pats text a)) [x],
      ms @ filter (\<lambda>a. \<not> fst (check_field pats text a)) [x],
      map (\<lambda>a. (a, snd (check_field pats text a))) (add_key ks x))"
  using update_keyed[of x "\<lambda>a. snd (check_field pats text a)" ks]
  by (auto simp: field_step_def check_field_missing)

lemma field_fold:
  "foldl (field_step pats text) (f, ms, map (\<lambda>a. (a, snd (check_field pats text a))) ks) required =
     (f @ filter (\<lambda>a. fst (check_field pats text a)) required,
      ms @ filter (\<lambda>a. \<not> fst (check_field pats text a)) required,
      map (\<lambda>a. (a, snd (check_field pats text a))) (foldl add_key ks required))"
proof (induction required arbitrary: f ms ks)
  case Nil
  then show ?case by simp
next
  case (Cons x xs)
  show ?case
    unfolding foldl_Cons field_step_keyed Cons.IH by simp
qed

lemma field_loop_eq:
  "field_loop pats text required =
     (filter (\<lambda>a. fst (check_field pats text a)) required,
      filter (\<lambda>a. \<not> fst (check_field pats text a)) required,
      map (\<lambda>a. (a, snd (check_field pats text a))) (dict_keys required))"
  using field_fold[of pats "text" "[]" "[]" "[]" required]
  by (simp add: field_loop_def dict_keys_def)

lemma set_fold_add_key: "set (foldl add_key ks required) = set ks \<union> set required"
  by (induction required arbitrary: ks) (auto simp: add_key_def)

lemma set_dict_keys: "set (dict_keys required) = set required"
  by (simp add: dict_keys_def set_fold_add_key)

lemma map_of_keyed: "map_of (map (\<lambda>a. (a, c a)) ks) x = (if x \<in> set ks then Some (c x) else None)"
  by (induction ks) auto


section \<open>Type detection\<close>










lemma security_found:
  "map_of document_patterns doc_type = Some config \<Longrightarrow>
     found_security (check_security_features t doc_type)
       = Some (filter (\<lambda>feature. py_in (py_lower feature) (py_lower t)) (security_features config))"
  by (simp add: check_security_features_def)

lemma validate_registered:
  "map_of document_patterns doc_type = Some config \<Longrightarrow>
     validate_document t doc_type =
       Inr (Report (build_report (required_fields config)
                      (field_loop (patterns config) t (required_fields config))
                      (validate_document_integrity t doc_type)
                      (check_security_features t doc_type)
                      (filter (\<lambda>feature. py_in (py_lower feature) (py_lower t))
                         (security_features config))))"
  by (simp add: validate_document_def security_found)







section \<open>Expiry dates: the two loops\<close>

lemma passes_through: "passes k st x q \<Longrightarrow> \<exists>st'. k st' = Some x"
  by (auto simp: passes_def)

lemma seq_prefix_through:
  "m ic (foldr Seq rs r) k st = Some x \<Longrightarrow> \<exists>st1. m ic r k st1 = Some x"
proof (induction rs arbitrary: st)
  case Nil
  then show ?case by auto
next
  case (Cons a rs)
  then have "m ic a (m ic (foldr Seq rs r) k) st = Some x" by simp
  from passes_through[OF m_passes[OF this]] obtain st' where "m ic (foldr Seq rs r) k st' = Some x" ..
  from Cons.IH[OF this] show ?case .
qed

lemma final_group_captured:
  assumes "m ic (cat (rs @ [Grp n r])) Some st = Some x"
  shows "group x n \<noteq> None"
proof -
  from assms have "m ic (foldr Seq rs (Seq (Grp n r) Eps)) Some st = Some x"
    by (simp add: cat_def)
  from seq_prefix_through[OF this] obtain st1 where
    "m ic r (\<lambda>st'. Some (capture n st1 st')) st1 = Some x" by auto
  from passes_through[OF m_passes[OF this]] obtain st' where "x = capture n st1 st'" by auto
  then show ?thesis by (simp add: group_def capture_def)
qed

lemma search_final_group:
  assumes "re_search ic (cat (rs @ [Grp n r])) s = Some mt"
  shows "group mt n \<noteq> None"
proof -
  from assms search_from_start obtain p' u s' where
    "m ic (cat (rs @ [Grp n r])) Some \<lparr>prev = p', rest = s', caps = []\<rparr> = Some mt"
    unfolding re_search_def by blast
  then show ?thesis by (rule final_group_captured)
qed

lemma template_shape:
  "pattern \<in> set validity_patterns \<Longrightarrow> \<exists>rs r. pattern = cat (rs @ [Grp 1 r])"
proof -
  assume "pattern \<in> set validity_patterns"
  then consider
      "pattern = cat ([lits (asc ''valid''), lazy_star Dot, lits (asc ''until''), lazy_star Dot] @ [date_token])"
    | "pattern = cat ([lits (asc ''expires''), lazy_star Dot, lits (asc ''on''), lazy_star Dot] @ [date_token])"
    | "pattern = cat ([lits (asc ''validity''), lazy_star Dot] @ [date_token])"
    | "pattern = cat ([lits (asc ''valid''), lazy_star Dot, lits (asc ''upto''), lazy_star Dot] @ [date_token])"
    by (auto simp: validity_patterns_def)
  then show ?thesis unfolding date_token_def by cases blast+
qed

lemma template_captures:
  "pattern \<in> set validity_patterns \<Longrightarrow> re_search True pattern s = Some mt \<Longrightarrow> group mt 1 \<noteq> None"
  using template_shape search_final_group by blast

lemma try_formats_find:
  "try_formats ds today info fmts =
     (case find (\<lambda>fmt. strptime ds fmt \<noteq> None) fmts of
        None \<Rightarrow> info
      | Some fmt \<Rightarrow>
          (case strptime ds fmt of
             None \<Rightarrow> info
           | Some parsed \<Rightarrow>
               info\<lparr>has_expiry := True,
                    expiry_date := Some ds,
                    expired := (if days_until parsed today < 0 then True else expired info),
                    expires_soon :=
                      (if days_until parsed today < 0 then expires_soon info
                       else if days_until parsed today < 30 then True
                       else expires_soon info)\<rparr>))"
  by (induction fmts) (auto split: option.splits)

lemma try_patterns_find:
  "(\<forall>p \<in> set ps. \<forall>mt. re_search True p s = Some mt \<longrightarrow> group mt 1 \<noteq> None) \<Longrightarrow>
   try_patterns s today info ps =
     (case find (\<lambda>p. re_found True p s) ps of
        None \<Rightarrow> info
      | Some p \<Rightarrow>
          (case re_search True p s of
             None \<Rightarrow> info
           | Some mt \<Rightarrow>
               (case group mt 1 of
                  None \<Rightarrow> info
                | Some ds \<Rightarrow> try_formats ds today info date_formats)))"
proof (induction ps)
  case Nil
  then show ?case by simp
next
  case (Cons p ps)
  from Cons.prems have ih: "try_patterns s today info ps =
     (case find (\<lambda>p. re_found True p s) ps of
        None \<Rightarrow> info
      | Some p \<Rightarrow>
          (case re_search True p s of
             None \<Rightarrow> info
           | Some mt \<Rightarrow>
               (case group mt 1 of
                  None \<Rightarrow> info
                | Some ds \<Rightarrow> try_formats ds today info date_formats)))"
    by (intro Cons.IH) simp
  show ?case
  proof (cases "re_search True p s")
    case None
    then show ?thesis using ih by (simp add: re_found_def)
  next
    case (Some mt)
    with Cons.prems obtain ds where "group mt 1 = Some ds" by auto
    with Some show ?thesis by (simp add: re_found_def)
  qed
qed

lemma days_negative: "(days_until parsed today < 0) = (parsed < today)"
  by (simp add: days_until_def day_us_def pos_imp_zdiv_neg_iff)

lemma days_nonnegative: "(0 \<le> days_until parsed today) = (\<not> parsed < today)"
  using days_negative[of parsed today] by auto


section \<open>Bounds on the parts of the validity score\<close>

lemma term_matches_nonneg: "0 \<le> term_matches terms t"
  by (simp add: term_matches_def)

lemma check_field_bounds:
  "0 \<le> snd (check_field pats t field) \<and> snd (check_field pats t field) \<le> 100"
proof (cases "map_of pats field")
  case (Some p)
  then show ?thesis by (simp add: check_field_pattern)
next
  case None
  consider "field = ''signature_stamp''" | "field \<noteq> ''signature_stamp''" "field = ''issuing_authority''"
    | "field \<noteq> ''signature_stamp''" "field \<noteq> ''issuing_authority''" "field = ''address''"
    | "field \<noteq> ''signature_stamp''" "field \<noteq> ''issuing_authority''" "field \<noteq> ''address''"
    by blast
  then show ?thesis
  proof cases
    case 1
    with None show ?thesis
      by (cases "1 \<le> term_matches signature_terms t") (simp_all add: check_field_def)
  next
    case 2
    with None show ?thesis
      by (cases "1 \<le> term_matches authority_terms t") (simp_all add: check_field_def)
  next
    case 3
    with None show ?thesis
      by (cases "1 \<le> term_matches address_terms t") (simp_all add: check_field_def)
  next
    case 4
    with None show ?thesis by (simp add: check_field_default)
  qed
qed

lemma sum_bounds:
  assumes "\<forall>x \<in> set xs. 0 \<le> f x \<and> f x \<le> (100::int)"
  shows "0 \<le> sum_list (map f xs) \<and> sum_list (map f xs) \<le> 100 * int (length xs)"
  using assms by (induction xs) auto

lemma average_bounds:
  fixes s :: int and n :: nat
  assumes "0 \<le> s" and "s \<le> 100 * int n" and "0 < n"
  shows "0 \<le> (of_int s :: rat) / of_nat n \<and> (of_int s :: rat) / of_nat n \<le> 100"
proof -
  have "(of_int s :: rat) \<le> of_int (100 * int n)" using assms(2) by (simp only: of_int_le_iff)
  then have "(of_int s :: rat) \<le> 100 * of_nat n" by simp
  then have "(of_int s :: rat) / of_nat n \<le> 100"
    using assms(3) by (simp add: pos_divide_le_eq)
  moreover have "0 \<le> (of_int s :: rat) / of_nat n" using assms(1) by simp
  ultimately show ?thesis by simp
qed

lemma ratio_bounds:
  "0 \<le> (of_nat (length (filter P xs)) :: rat) / of_nat (length xs)
   \<and> (of_nat (length (filter P xs)) :: rat) / of_nat (length xs) \<le> 1"
proof (cases "xs = []")
  case True
  then show ?thesis by simp
next
  case False
  have "(of_nat (length (filter P xs)) :: rat) \<le> of_nat (length xs)"
    by (simp only: of_nat_le_iff length_filter_le)
  then show ?thesis using False by (simp add: pos_divide_le_eq)
qed

lemma integrity_bounds:
  "0 \<le> text_quality (validate_document_integrity t doc_type)
          + structure_score (validate_document_integrity t doc_type)
   \<and> text_quality (validate_document_integrity t doc_type)
          + structure_score (validate_document_integrity t doc_type) \<le> 100"
  using date_special[of t] by (simp add: validate_document_integrity_def)

lemma security_bounds:
  "map_of document_patterns doc_type = Some config \<Longrightarrow>
     0 \<le> security_score (check_security_features t doc_type)
     \<and> security_score (check_security_features t doc_type) \<le> 1"
  using ratio_bounds[of "\<lambda>feature. py_in (py_lower feature) (py_lower t)" "security_features config"]
  by (simp add: check_security_features_def)

lemma weighted_bounds:
  assumes "0 \<le> a \<and> a \<le> 1" and "0 \<le> b \<and> b \<le> 100" and "0 \<le> c \<and> c \<le> 1" and "0 \<le> d \<and> d \<le> 1"
  shows "0 \<le> weighted_validity a b c d \<and> weighted_validity a b c d \<le> 1"
proof -
  have "0 \<le> b / 100 \<and> b / 100 \<le> 1" using assms(2) by simp
  then show ?thesis using assms(1,3,4) unfolding weighted_validity_def by simp
qed

lemma validity_score_bounds:
  assumes reg: "map_of document_patterns doc_type = Some config"
  shows "0 \<le> validity_score (build_report (required_fields config)
                 (field_loop (patterns config) t (required_fields config))
                 (validate_document_integrity t doc_type)
                 (check_security_features t doc_type) fs)
       \<and> validity_score (build_report (required_fields config)
                 (field_loop (patterns config) t (required_fields config))
                 (validate_document_integrity t doc_type)
                 (check_security_features t doc_type) fs) \<le> 1"
proof -
  let ?req = "required_fields config"
  let ?c = "\<lambda>a. snd (check_field (patterns config) t a)"
  let ?ks = "dict_keys ?req"
  let ?ratio = "if ?req \<noteq> []
      then (of_nat (length (filter (\<lambda>a. fst (check_field (patterns config) t a)) ?req)) :: rat)
           / of_nat (length ?req) else 0"
  let ?avg = "if map (\<lambda>a. (a, ?c a)) ?ks \<noteq> []
      then (of_int (sum_list (map snd (map (\<lambda>a. (a, ?c a)) ?ks))) :: rat)
           / of_nat (length (map (\<lambda>a. (a, ?c a)) ?ks)) else 0"
  let ?sec = "security_score (check_security_features t doc_type)"
  let ?integ = "(of_int (text_quality (validate_document_integrity t doc_type)
                   + structure_score (validate_document_integrity t doc_type)) :: rat) / 100"
  let ?flags = "(of_nat (length (red_flags (validate_document_integrity t doc_type))) :: rat) * 0.1"
  have r: "0 \<le> ?ratio \<and> ?ratio \<le> 1" using ratio_bounds by auto
  have m: "map snd (map (\<lambda>a. (a, ?c a)) ?ks) = map ?c ?ks" by (simp add: comp_def)
  have a: "0 \<le> ?avg \<and> ?avg \<le> 100"
  proof (cases "?ks = []")
    case True
    then show ?thesis by simp
  next
    case False
    have "0 \<le> sum_list (map ?c ?ks) \<and> sum_list (map ?c ?ks) \<le> 100 * int (length ?ks)"
      by (rule sum_bounds) (simp add: check_field_bounds)
    then have "0 \<le> (of_int (sum_list (map ?c ?ks)) :: rat) / of_nat (length ?ks)
        \<and> (of_int (sum_list (map ?c ?ks)) :: rat) / of_nat (length ?ks) \<le> 100"
      using False by (intro average_bounds) simp_all
    then show ?thesis using False unfolding m by simp
  qed
  have s: "0 \<le> ?sec \<and> ?sec \<le> 1" using security_bounds[OF reg] by simp
  have "0 \<le> text_quality (validate_document_integrity t doc_type)
          + structure_score (validate_document_integrity t doc_type)
     \<and> text_quality (validate_document_integrity t doc_type)
          + structure_score (validate_document_integrity t doc_type) \<le> 100"
    by (rule integrity_bounds)
  then have "(0::rat) \<le> of_int (text_quality (validate_document_integrity t doc_type)
          + structure_score (validate_document_integrity t doc_type))
     \<and> (of_int (text_quality (validate_document_integrity t doc_type)
          + structure_score (validate_document_integrity t doc_type)) :: rat) \<le> of_int 100"
    by (simp only: of_int_le_iff of_int_0_le_iff)
  then have i: "0 \<le> ?integ \<and> ?integ \<le> 1" by simp
  have w: "0 \<le> weighted_validity ?ratio ?avg ?sec ?integ
           \<and> weighted_validity ?ratio ?avg ?sec ?integ \<le> 1"
    using weighted_bounds[OF r a s i] .
  have f: "0 \<le> ?flags" by simp
  have "validity_score (build_report ?req (field_loop (patterns config) t ?req)
                 (validate_document_integrity t doc_type)
                 (check_security_features t doc_type) fs)
        = max 0 (weighted_validity ?ratio ?avg ?sec ?integ - ?flags)"
    by (simp add: field_loop_eq build_report_def)
  moreover have "0 \<le> max 0 (weighted_validity ?ratio ?avg ?sec ?integ - ?flags)
      \<and> max 0 (weighted_validity ?ratio ?avg ?sec ?integ - ?flags) \<le> 1"
    using w f by (simp add: max_def)
  ultimately show ?thesis by simp
qed



section \<open>The claims about validation\<close>

text \<open>
  Claim C1.  For every input text (the empty string and arbitrarily long strings included)
  and every registered document type, the validity score computed by \<open>validate_document\<close>
  lies in the closed interval from 0 to 1.  The upper bound rests on two of the integrity
  checks excluding each other: a text with a date has a \<open>/\<close> or a \<open>-\<close>, hence a special
  character, so text quality and structure score together never exceed 100.
\<close>

theorem validity_score_range:
  "map_of document_patterns doc_type = Some config \<Longrightarrow>
     \<exists>r. validate_document t doc_type = Inr (Report r)
       \<and> 0 \<le> validity_score r \<and> validity_score r \<le> 1"
  using validity_score_bounds by (simp add: validate_registered)

theorem validity_score_range_witness:
  "map_of document_patterns ''aadhaar'' = Some aadhaar_config
   \<and> (\<exists>r. validate_document [] ''aadhaar'' = Inr (Report r)
         \<and> 0 \<le> validity_score r \<and> validity_score r \<le> 1)"
proof -
  have h: "map_of document_patterns ''aadhaar'' = Some aadhaar_config"
    by (simp add: document_patterns_def)
  show ?thesis using h validity_score_range [OF h, of "[]"] by simp
qed








text \<open>
  Claim C4.  For every required field that has an extraction pattern, the field extractor
  marks it found iff the pattern has at least one case-insensitive match in the text, with
  confidence \<open>min(100, matchCount*30 + 40)\<close> (and marks it missing, with confidence 0,
  otherwise); and every required field with no pattern and a name other than
  \<open>signature_stamp\<close>, \<open>issuing_authority\<close> and \<open>address\<close> is marked found with confidence
  exactly 50, for every text.  The statement is about the loop over the required fields, for
  any table of patterns and any list of required fields.
\<close>

theorem field_extraction:
  "field \<in> set required \<Longrightarrow>
     (case field_loop pats text required of (found, missing, conf) \<Rightarrow>
        (\<forall>pattern. map_of pats field = Some pattern \<longrightarrow>
            (field \<in> set found \<longleftrightarrow> finditer True pattern text \<noteq> [])
          \<and> (field \<in> set missing \<longleftrightarrow> finditer True pattern text = [])
          \<and> map_of conf field
               = Some (if finditer True pattern text \<noteq> []
                       then min 100 (int (length (finditer True pattern text)) * 30 + 40)
                       else 0))
      \<and> (map_of pats field = None \<and> field \<noteq> ''signature_stamp''
           \<and> field \<noteq> ''issuing_authority'' \<and> field \<noteq> ''address'' \<longrightarrow>
            field \<in> set found \<and> field \<notin> set missing \<and> map_of conf field = Some 50))"
  by (auto simp: field_loop_eq map_of_keyed set_dict_keys check_field_pattern check_field_default)

lemma name_ab_cd: "length (finditer True (re_name 2) (asc ''ab cd'')) = 1"
  by (simp add: re_name_def engine_eval)

theorem field_extraction_witness:
  "map_of (patterns aadhaar_config) ''name'' = Some (re_name 2)
   \<and> map_of (patterns aadhaar_config) ''photo'' = None
   \<and> length (finditer True (re_name 2) (asc ''ab cd'')) = 1
   \<and> (case field_loop (patterns aadhaar_config) (asc ''ab cd'') [''name'', ''photo''] of
         (found, missing, conf) \<Rightarrow>
           ''name'' \<in> set found \<and> map_of conf ''name'' = Some 70
           \<and> ''photo'' \<in> set found \<and> map_of conf ''photo'' = Some 50)"
proof -
  have p1: "map_of (patterns aadhaar_config) ''name'' = Some (re_name 2)"
    and p2: "map_of (patterns aadhaar_config) ''photo'' = None"
    by (simp_all add: aadhaar_config_def)
  have r1: "''name'' \<in> set [''name'', ''photo'']" and r2: "''photo'' \<in> set [''name'', ''photo'']"
    by simp_all
  show ?thesis
    using p1 p2 name_ab_cd
      field_extraction [OF r1, of "patterns aadhaar_config" "asc ''ab cd''"]
      field_extraction [OF r2, of "patterns aadhaar_config" "asc ''ab cd''"]
    by (auto split: prod.splits)
qed


text \<open>
  Claim C5.  The expiry resolver tries its four templates in the fixed order (valid...until,
  expires...on, validity..., valid...upto); the first template that matches wins and no
  further template is tried, also when its date does not parse.  The captured date is
  parsed against the four formats in the order D/M/Y, D-M-Y, M/D/Y, M-D-Y, the first
  successful parse winning.  \<open>expired\<close> holds iff the parsed date is strictly before the
  current time, \<open>expires_soon\<close> iff the days until expiry are at least 0 and below 30.
\<close>

theorem expiry_resolution:
  "check_expiry_date text doc_type today = expiry_spec text today"
proof -
  have "check_expiry_date text doc_type today =
     (case find (\<lambda>p. re_found True p text) validity_patterns of
        None \<Rightarrow> no_expiry
      | Some p \<Rightarrow>
          (case re_search True p text of
             None \<Rightarrow> no_expiry
           | Some mt \<Rightarrow>
               (case group mt 1 of
                  None \<Rightarrow> no_expiry
                | Some ds \<Rightarrow> try_formats ds today no_expiry date_formats)))"
    unfolding check_expiry_date_def no_expiry_def[symmetric]
    by (rule try_patterns_find) (use template_captures in blast)
  also have "\<dots> = expiry_spec text today"
    by (auto simp: expiry_spec_def first_template_match_def first_parse_def try_formats_find
        no_expiry_def days_negative days_nonnegative split: option.splits)
  finally show ?thesis .
qed

lemmas expiry_eval =
  check_expiry_date_def validity_patterns_def date_formats_def date_token_def strptime_def
  directive_re_def group_int_def py_int_def py_strip_def digit_val_def days_in_month_def
  is_leap_def ymd2ord_def days_before_year_def days_before_month_def days_until_def day_us_def

lemma expiry_month_first:
  "check_expiry_date (asc ''validity 12/25/2030'') ''income_certificate''
       (ymd2ord 2030 12 1 * day_us + 1)
     = \<lparr>has_expiry = True, expired = False, expires_soon = True,
        expiry_date = Some (asc ''12/25/2030'')\<rparr>"
  by (simp add: expiry_eval engine_eval upto.simps)

lemma expiry_first_template_only:
  "check_expiry_date (asc ''valid until 31/02/2030 validity 01/01/2031'') ''income_certificate''
       (ymd2ord 2030 12 1 * day_us + 1)
     = \<lparr>has_expiry = False, expired = False, expires_soon = False, expiry_date = None\<rparr>"
  by (simp add: expiry_eval engine_eval upto.simps)

theorem expiry_resolution_witness:
  "expiry_spec (asc ''validity 12/25/2030'') (ymd2ord 2030 12 1 * day_us + 1)
     = \<lparr>has_expiry = True, expired = False, expires_soon = True,
        expiry_date = Some (asc ''12/25/2030'')\<rparr>
   \<and> expiry_spec (asc ''valid until 31/02/2030 validity 01/01/2031'')
         (ymd2ord 2030 12 1 * day_us + 1) = no_expiry"
  using expiry_resolution [of "asc ''validity 12/25/2030''" "''income_certificate''"
          "ymd2ord 2030 12 1 * day_us + 1"]
        expiry_resolution [of "asc ''valid until 31/02/2030 validity 01/01/2031''"
          "''income_certificate''" "ymd2ord 2030 12 1 * day_us + 1"]
  by (simp add: expiry_month_first expiry_first_template_only no_expiry_def)


section \<open>A type that is not registered\<close>

text \<open>
  Claim C6, as stated: for every text, the validation engine called with a type that is not
  in the registry returns (does not raise) a report with \<open>valid\<close> false, \<open>missing_fields\<close> equal
  to \<open>["Unknown document type"]\<close> and a validity score of 0.  The report returned for the type
  \<open>passport\<close> has the first two entries and no validity score: reading it is a \<open>KeyError\<close>, not 0.
\<close>

theorem unknown_type_score_counterexample:
  "validate_document (asc ''hello'') ''passport''
     = Inr (Unknown_Type_Report False [''Unknown document type''])
   \<and> get_validity_score (Unknown_Type_Report False [''Unknown document type'']) \<noteq> Inr 0"
  by (simp add: validate_document_def document_patterns_def)

text \<open>
  Claim C6, amended: for every text, the validation engine called with a type that is not in
  the registry returns (does not raise) a report that consists of \<open>valid\<close> false and
  \<open>missing_fields\<close> equal to \<open>["Unknown document type"]\<close>; it holds no validity score.
\<close>

theorem unknown_type_report:
  "map_of document_patterns doc_type = None \<Longrightarrow>
     validate_document text doc_type
       = Inr (Unknown_Type_Report False [''Unknown document type''])
     \<and> (case validate_document text doc_type of
           Inl e \<Rightarrow> Inl e | Inr r \<Rightarrow> get_validity_score r) = Inl (KeyError ''validity_score'')"
  by (simp add: validate_document_def)

theorem unknown_type_report_witness:
  "map_of document_patterns ''passport'' = None
   \<and> validate_document (asc ''hello'') ''passport''
       = Inr (Unknown_Type_Report False [''Unknown document type''])
   \<and> (case validate_document (asc ''hello'') ''passport'' of
         Inl e \<Rightarrow> Inl e | Inr r \<Rightarrow> get_validity_score r) = Inl (KeyError ''validity_score'')"
proof -
  have h: "map_of document_patterns ''passport'' = None"
    by (simp add: document_patterns_def)
  show ?thesis using h unknown_type_report [OF h, of "asc ''hello''"] by simp
qed


section \<open>Too little text\<close>








section \<open>The analytics log is bounded\<close>

text \<open>
  Claim C9.  The analytics log is append-only and bounded: after every call of
  \<open>log_validation\<close> the history holds at most 100 entries, and when the bound is exceeded the
  oldest entries go first, so that exactly the most recent 100 remain, in order.  For every
  history, also one longer than the bound: the new history is the old one with the new entry
  at its end, cut down to its last 100 entries; its length is the smaller of 100 and the old
  length plus one; its last entry is the new one.
\<close>

theorem log_validation_ring:
  "length (log_validation h r t) = min 100 (length h + 1)
   \<and> log_validation h r t = drop (length h + 1 - 100) (h @ [make_entry r t])
   \<and> last (log_validation h r t) = make_entry r t"
  by (auto simp: log_validation_def min_def)


section \<open>The special-character check is all or nothing\<close>



end
